theory Spec2Isabelle
  imports Complex_Main "HOL-Library.Log_Nat" "HOL-Library.Word"
begin

section \<open>JavaScript numbers\<close>

text \<open>
  The dashboard arithmetic is done on JavaScript Numbers, that is on IEEE-754 binary64
  values. Every value computed there comes from array lengths (integers below \<open>2^32\<close>), the
  literal \<open>100\<close>, division, multiplication, addition and \<open>Math.round\<close>, so it is
  non-negative: a value is a non-negative rational that is a binary64 number, \<open>+Infinity\<close>
  or \<open>NaN\<close>. Negative zero and \<open>-Infinity\<close> cannot arise and are left out.
\<close>

datatype jsnum = Num rat | PosInf | NaN

text \<open>Rounding to the nearest integer, ties to the even one (the IEEE default).\<close>

definition round_even :: "rat \<Rightarrow> int" where
  "round_even z =
     (let f = \<lfloor>z\<rfloor>; d = z - of_int f in
        if d < 1 / 2 then f
        else if 1 / 2 < d then f + 1
        else if even f then f else f + 1)"

text \<open>
  The binary exponent of a positive rational \<open>x\<close>: the \<open>e\<close> with \<open>2^e \<le> x < 2^(e+1)\<close>,
  computed from the bit lengths of numerator and denominator.
\<close>

definition expo :: "rat \<Rightarrow> int" where
  "expo x =
     (case quotient_of x of (p, q) \<Rightarrow>
        let e = bitlen p - bitlen q in if 2 powi e \<le> x then e else e - 1)"

text \<open>
  \<open>fl x\<close> is the binary64 number nearest to \<open>x\<close>: the 53-bit significand is
  \<open>x\<close> scaled into \<open>[2^52, 2^53)\<close> and rounded to even. The exponent range of binary64
  (\<open>2^-1022\<close> to \<open>2^1024\<close>) is not modelled: the quotients, products and sums of array
  lengths stay between \<open>2^-32\<close> and \<open>2^71\<close>.
\<close>

definition fl :: "rat \<Rightarrow> rat" where
  "fl x =
     (if x = 0 then 0
      else let a = \<bar>x\<bar>; s = 52 - expo a
           in sgn x * of_int (round_even (a * 2 powi s)) * 2 powi (- s))"

text \<open>The operators \<open>/\<close>, \<open>*\<close> and \<open>+\<close> on non-negative Numbers.\<close>

fun js_div :: "jsnum \<Rightarrow> jsnum \<Rightarrow> jsnum" where
  "js_div NaN _ = NaN"
| "js_div _ NaN = NaN"
| "js_div PosInf PosInf = NaN"
| "js_div PosInf (Num b) = PosInf"
| "js_div (Num a) PosInf = Num 0"
| "js_div (Num a) (Num b) =
     (if b = 0 then (if a = 0 then NaN else PosInf) else Num (fl (a / b)))"

fun js_mul :: "jsnum \<Rightarrow> jsnum \<Rightarrow> jsnum" where
  "js_mul NaN _ = NaN"
| "js_mul _ NaN = NaN"
| "js_mul PosInf PosInf = PosInf"
| "js_mul PosInf (Num b) = (if b = 0 then NaN else PosInf)"
| "js_mul (Num a) PosInf = (if a = 0 then NaN else PosInf)"
| "js_mul (Num a) (Num b) = Num (fl (a * b))"

fun js_add :: "jsnum \<Rightarrow> jsnum \<Rightarrow> jsnum" where
  "js_add NaN _ = NaN"
| "js_add _ NaN = NaN"
| "js_add PosInf _ = PosInf"
| "js_add _ PosInf = PosInf"
| "js_add (Num a) (Num b) = Num (fl (a + b))"

text \<open>
  \<open>Math.round\<close>: the integer closest to the argument, the larger one at a tie;
  \<open>NaN\<close> and \<open>+Infinity\<close> are returned unchanged.
\<close>

fun Math_round :: "jsnum \<Rightarrow> jsnum" where
  "Math_round (Num x) = Num (of_int \<lfloor>x + 1 / 2\<rfloor>)"
| "Math_round PosInf = PosInf"
| "Math_round NaN = NaN"

text \<open>The \<open>length\<close> property of an array, as a Number.\<close>

definition js_length :: "'a list \<Rightarrow> jsnum" where
  "js_length xs = Num (of_nat (length xs))"

text \<open>
  Reading \<open>xs[i]\<close>: \<open>undefined\<close> (here \<open>None\<close>) beyond the end of the array.
\<close>

definition js_index :: "'a list \<Rightarrow> nat \<Rightarrow> 'a option" where
  "js_index xs i = (if i < length xs then Some (xs ! i) else None)"


section \<open>Data model\<close>

text \<open>
  The records fetched from the backend. Identifiers are only ever compared with \<open>===\<close>,
  so their type is a parameter.
\<close>

record 'i milestone =
  id_milestone :: 'i
  estimated_days :: nat

record 'i career_path =
  id_path :: 'i
  name_path :: string
  description_path :: string
  icon_path :: string
  milestones :: "'i milestone list"

record 'i progress_record =
  user_id :: 'i
  career_path_id :: 'i
  completed_milestones :: "'i list"


section \<open>Dashboard: progress aggregation\<close>

text \<open>
  \<open>Dashboard.js\<close>, \<open>getPathProgress\<close>: the first progress record of the path and the first
  catalog entry of the path are looked up with \<open>Array.prototype.find\<close>; each missing one
  returns \<open>0\<close> before anything is divided.
\<close>

definition getPathProgress ::
  "'i career_path list \<Rightarrow> 'i progress_record list \<Rightarrow> 'i \<Rightarrow> jsnum" where
  "getPathProgress careerPaths userProgress pathId =
     (case find (\<lambda>p. career_path_id p = pathId) userProgress of
        None \<Rightarrow> Num 0
      | Some progress \<Rightarrow>
          (case find (\<lambda>p. id_path p = pathId) careerPaths of
             None \<Rightarrow> Num 0
           | Some path \<Rightarrow>
               Math_round
                 (js_mul
                    (js_div (js_length (completed_milestones progress))
                       (js_length (milestones path)))
                    (Num 100))))"

text \<open>
  \<open>getCompletedCount\<close>: a \<open>reduce\<close> over every progress record, counting those whose
  path is in the catalog with as many milestones as the record has completed ones. The
  counter is an integer below \<open>2^32\<close>, where \<open>sum + 1\<close> is exact.
\<close>

definition getCompletedCount ::
  "'i career_path list \<Rightarrow> 'i progress_record list \<Rightarrow> nat" where
  "getCompletedCount careerPaths userProgress =
     foldl
       (\<lambda>sum p.
          case find (\<lambda>cp. id_path cp = career_path_id p) careerPaths of
            None \<Rightarrow> sum
          | Some path \<Rightarrow>
              if length (completed_milestones p) = length (milestones path)
              then sum + 1 else sum)
       0 userProgress"

definition getTotalMilestonesCompleted :: "'i progress_record list \<Rightarrow> nat" where
  "getTotalMilestonesCompleted userProgress =
     foldl (\<lambda>sum p. sum + length (completed_milestones p)) 0 userProgress"

text \<open>
  The "Average" tile: \<open>userProgress.length > 0 ? Math.round(userProgress.reduce((sum, p) =>
  sum + getPathProgress(p.career_path_id), 0) / userProgress.length) : 0\<close>.
\<close>

definition averageProgress ::
  "'i career_path list \<Rightarrow> 'i progress_record list \<Rightarrow> jsnum" where
  "averageProgress careerPaths userProgress =
     (if length userProgress > 0
      then Math_round
             (js_div
                (foldl
                   (\<lambda>sum p.
                      js_add sum (getPathProgress careerPaths userProgress (career_path_id p)))
                   (Num 0) userProgress)
                (js_length userProgress))
      else Num 0)"


section \<open>Profile: statistics\<close>

record stats =
  totalPaths :: nat
  completedPaths :: nat
  totalMilestones :: nat
  achievementsCount :: nat
  certificatesCount :: nat

record profile_state =
  stats :: stats
  loading_profile :: bool

definition initial_profile :: profile_state where
  "initial_profile =
     \<lparr>stats = \<lparr>totalPaths = 0, completedPaths = 0, totalMilestones = 0,
                achievementsCount = 0, certificatesCount = 0\<rparr>,
      loading_profile = True\<rparr>"

text \<open>
  What the three concurrent reads of \<open>fetchStats\<close> resolve to: the progress list, the
  \<open>achievements\<close> field of the achievements response (it may be absent) and the catalog.
\<close>

record 'i profile_responses =
  progressRes :: "'i progress_record list"
  achievementsRes :: "string list option"
  pathsRes :: "'i career_path list"

text \<open>
  \<open>Profile.fetchStats\<close>. \<open>None\<close> stands for a rejected \<open>Promise.all\<close>: the error is
  logged and \<open>setStats\<close> is not reached. \<open>finally\<close> clears the loading flag either way.
\<close>

definition fetchStats :: "'i profile_responses option \<Rightarrow> profile_state \<Rightarrow> profile_state" where
  "fetchStats res st =
     (case res of
        None \<Rightarrow> st\<lparr>loading_profile := False\<rparr>
      | Some r \<Rightarrow>
          let progress = progressRes r;
              achievements = (case achievementsRes r of None \<Rightarrow> [] | Some a \<Rightarrow> a);
              paths = pathsRes r;
              completed =
                length
                  (filter
                     (\<lambda>p. case find (\<lambda>cp. id_path cp = career_path_id p) paths of
                            None \<Rightarrow> False
                          | Some path \<Rightarrow>
                              length (completed_milestones p) = length (milestones path))
                     progress);
              total = foldl (\<lambda>sum p. sum + length (completed_milestones p)) 0 progress
          in st\<lparr>stats :=
                  \<lparr>totalPaths = length progress,
                   completedPaths = completed,
                   totalMilestones = total,
                   achievementsCount = length achievements,
                   certificatesCount = completed\<rparr>,
                loading_profile := False\<rparr>)"


section \<open>Quiz wizard\<close>

record question =
  id_question :: string
  question_text :: string
  options :: "string list"

record answer =
  question_id :: string
  selected_option :: nat

record recommended_path =
  path_id :: string
  path_name :: string
  reason :: string
  estimated_weeks :: nat
  score :: nat

record quiz_results =
  recommended_paths :: "recommended_path list"
  learning_style :: string

text \<open>
  The component state of \<open>Quiz\<close>. An array slot that was never written reads as
  \<open>undefined\<close>: the answers are a list of optional answers. The two effects of the
  component are recorded as well: the messages shown with \<open>alert\<close> and the bodies posted to
  \<open>/api/quiz/submit\<close>.
\<close>

record quiz_state =
  questions :: "question list"
  currentQuestion :: nat
  answers :: "answer option list"
  loading :: bool
  submitting :: bool
  results :: "quiz_results option"
  alerts :: "string list"
  posts :: "answer option list list"

text \<open>The state once the question list has been fetched.\<close>

definition initial_quiz :: "question list \<Rightarrow> quiz_state" where
  "initial_quiz qs =
     \<lparr>questions = qs, currentQuestion = 0, answers = [], loading = False,
      submitting = False, results = None, alerts = [], posts = []\<rparr>"

text \<open>\<open>answers[i]\<close>: \<open>undefined\<close> beyond the end of the array and at an unwritten slot.\<close>

definition slot :: "quiz_state \<Rightarrow> nat \<Rightarrow> answer option" where
  "slot s i = (case js_index (answers s) i of None \<Rightarrow> None | Some a \<Rightarrow> a)"

text \<open>
  \<open>newAnswers[i] = v\<close> on the copy \<open>[...answers]\<close>: an index beyond the end extends the array,
  and the slots in between stay unwritten.
\<close>

definition js_assign :: "'a option list \<Rightarrow> nat \<Rightarrow> 'a \<Rightarrow> 'a option list" where
  "js_assign xs i v =
     (if i < length xs then xs[i := Some v]
      else xs @ replicate (i - length xs) None @ [Some v])"

text \<open>
  \<open>handleAnswer\<close>. Reading \<open>questions[currentQuestion].id\<close> where there is no such question
  throws before \<open>setAnswers\<close>, and the state stays as it is.
\<close>

definition handleAnswer :: "nat \<Rightarrow> quiz_state \<Rightarrow> quiz_state" where
  "handleAnswer optionIndex s =
     (case js_index (questions s) (currentQuestion s) of
        None \<Rightarrow> s
      | Some q \<Rightarrow>
          s\<lparr>answers :=
               js_assign (answers s) (currentQuestion s)
                 \<lparr>question_id = id_question q, selected_option = optionIndex\<rparr>\<rparr>)"

definition handleNext :: "quiz_state \<Rightarrow> quiz_state" where
  "handleNext s =
     (if int (currentQuestion s) < int (length (questions s)) - 1
      then s\<lparr>currentQuestion := currentQuestion s + 1\<rparr> else s)"

definition handlePrevious :: "quiz_state \<Rightarrow> quiz_state" where
  "handlePrevious s =
     (if currentQuestion s > 0
      then s\<lparr>currentQuestion := currentQuestion s - 1\<rparr> else s)"

text \<open>
  \<open>handleSubmit\<close> is asynchronous. Up to the \<open>await\<close> it checks the lengths, sets
  \<open>submitting\<close> and posts the answers; the rest runs when the request settles.
\<close>

definition handleSubmit_call :: "quiz_state \<Rightarrow> quiz_state" where
  "handleSubmit_call s =
     (if length (answers s) \<noteq> length (questions s)
      then s\<lparr>alerts := alerts s @ [''Please answer all questions'']\<rparr>
      else s\<lparr>submitting := True, posts := posts s @ [answers s]\<rparr>)"

definition handleSubmit_resolved :: "quiz_results \<Rightarrow> quiz_state \<Rightarrow> quiz_state" where
  "handleSubmit_resolved payload s = s\<lparr>results := Some payload\<rparr>"

definition handleSubmit_rejected :: "quiz_state \<Rightarrow> quiz_state" where
  "handleSubmit_rejected s =
     s\<lparr>alerts := alerts s @ [''Failed to submit quiz. Please try again.''],
       submitting := False\<rparr>"

datatype post_outcome = Resolved quiz_results | Rejected

text \<open>One whole run of \<open>handleSubmit\<close>, with nothing else happening during the request.\<close>

definition handleSubmit :: "post_outcome \<Rightarrow> quiz_state \<Rightarrow> quiz_state" where
  "handleSubmit outcome s =
     (if length (answers s) \<noteq> length (questions s) then handleSubmit_call s
      else case outcome of
             Resolved payload \<Rightarrow> handleSubmit_resolved payload (handleSubmit_call s)
           | Rejected \<Rightarrow> handleSubmit_rejected (handleSubmit_call s))"

text \<open>
  What the component renders: the spinner while loading, the results once \<open>results\<close> is
  set, the question card otherwise. The card reads \<open>question.question\<close> of
  \<open>questions[currentQuestion]\<close>, which throws where there is no such question.
\<close>

datatype view = LoadingView | ResultsView | AnsweringView | RenderError

definition render :: "quiz_state \<Rightarrow> view" where
  "render s =
     (if loading s then LoadingView
      else if results s \<noteq> None then ResultsView
      else case js_index (questions s) (currentQuestion s) of
             None \<Rightarrow> RenderError
           | Some q \<Rightarrow> AnsweringView)"

text \<open>The navigation buttons of the question card, with their \<open>disabled\<close> attributes.\<close>

definition previous_disabled :: "quiz_state \<Rightarrow> bool" where
  "previous_disabled s = (currentQuestion s = 0)"

definition next_rendered :: "quiz_state \<Rightarrow> bool" where
  "next_rendered s = (int (currentQuestion s) < int (length (questions s)) - 1)"

definition next_disabled :: "quiz_state \<Rightarrow> bool" where
  "next_disabled s = (case slot s (currentQuestion s) of None \<Rightarrow> True | Some a \<Rightarrow> False)"

definition submit_rendered :: "quiz_state \<Rightarrow> bool" where
  "submit_rendered s = (\<not> next_rendered s)"

definition submit_disabled :: "quiz_state \<Rightarrow> bool" where
  "submit_disabled s = (length (answers s) \<noteq> length (questions s) \<or> submitting s)"

text \<open>
  The events of the wizard. The handlers are local to the component, and each is called
  from one place only: the \<open>onClick\<close> of its button. A button dispatches a click only
  while it is rendered and not disabled (\<open>Button\<close> is the button of the UI library, which
  hands \<open>disabled\<close> to the DOM element). The request of \<open>handleSubmit\<close> settles only while
  one is in flight, which is while \<open>submitting\<close> is set and no results have arrived.
\<close>

datatype event =
  ClickOption nat | ClickNext | ClickPrevious | ClickSubmit
  | PostResolved quiz_results | PostRejected

fun enabled :: "quiz_state \<Rightarrow> event \<Rightarrow> bool" where
  "enabled s (ClickOption i) =
     (render s = AnsweringView \<and>
      (case js_index (questions s) (currentQuestion s) of
         None \<Rightarrow> False | Some q \<Rightarrow> i < length (options q)))"
| "enabled s ClickNext =
     (render s = AnsweringView \<and> next_rendered s \<and> \<not> next_disabled s)"
| "enabled s ClickPrevious = (render s = AnsweringView \<and> \<not> previous_disabled s)"
| "enabled s ClickSubmit =
     (render s = AnsweringView \<and> submit_rendered s \<and> \<not> submit_disabled s)"
| "enabled s (PostResolved payload) = (submitting s \<and> results s = None)"
| "enabled s PostRejected = (submitting s \<and> results s = None)"

fun fire :: "event \<Rightarrow> quiz_state \<Rightarrow> quiz_state" where
  "fire (ClickOption i) s = handleAnswer i s"
| "fire ClickNext s = handleNext s"
| "fire ClickPrevious s = handlePrevious s"
| "fire ClickSubmit s = handleSubmit_call s"
| "fire (PostResolved payload) s = handleSubmit_resolved payload s"
| "fire PostRejected s = handleSubmit_rejected s"

text \<open>
  Running a sequence of events; \<open>None\<close> when one of them cannot happen. The states that the
  wizard reaches are the \<open>s\<close> with \<open>run (initial_quiz qs) es = Some s\<close> for some events
  \<open>es\<close>.
\<close>

fun run :: "quiz_state \<Rightarrow> event list \<Rightarrow> quiz_state option" where
  "run s [] = Some s"
| "run s (e # es) = (if enabled s e then run (fire e s) es else None)"


section \<open>Achievement badges\<close>

text \<open>
  The glyph of a badge is kept as its list of Unicode code points.
\<close>

record achievement =
  name :: string
  description :: string
  icon :: "nat list"
  color :: string

definition ACHIEVEMENT_DATA :: "(string \<times> achievement) list" where
  "ACHIEVEMENT_DATA =
     [(''first_step'',
         \<lparr>name = ''First Step'', description = ''Complete your first milestone'',
          icon = [0x1F3AF], color = ''#10B981''\<rparr>),
      (''halfway_hero'',
         \<lparr>name = ''Halfway Hero'', description = ''Complete 50% of a career path'',
          icon = [0x1F680], color = ''#3B82F6''\<rparr>),
      (''path_master'',
         \<lparr>name = ''Path Master'', description = ''Complete an entire career path'',
          icon = [0x1F451], color = ''#F59E0B''\<rparr>),
      (''speed_demon'',
         \<lparr>name = ''Speed Demon'', description = ''Complete a path in record time'',
          icon = [0x26A1], color = ''#EF4444''\<rparr>),
      (''multi_path'',
         \<lparr>name = ''Multi-Path Master'', description = ''Complete 3 different career paths'',
          icon = [0x1F31F], color = ''#8B5CF6''\<rparr>)]"

text \<open>
  \<open>ACHIEVEMENT_DATA\<close> is an object literal, so its prototype is \<open>Object.prototype\<close>, and
  \<open>ACHIEVEMENT_DATA[key]\<close> finds the properties of the prototype where the literal has
  no own property of that name. These are the property names of \<open>Object.prototype\<close>
  (ECMA-262, "Properties of the Object Prototype Object", with the legacy accessors);
  each of them reads as a function, or as \<open>Object.prototype\<close> itself for \<open>__proto__\<close>:
  a truthy value.
\<close>

definition Object_prototype_keys :: "string list" where
  "Object_prototype_keys =
     [''constructor'', ''hasOwnProperty'', ''isPrototypeOf'', ''propertyIsEnumerable'',
      ''toLocaleString'', ''toString'', ''valueOf'', ''__proto__'',
      ''__defineGetter__'', ''__defineSetter__'', ''__lookupGetter__'', ''__lookupSetter__'']"

datatype property_value = Own achievement | Inherited string

text \<open>\<open>ACHIEVEMENT_DATA[achievementId]\<close>; \<open>None\<close> is \<open>undefined\<close>.\<close>

definition lookup_achievement :: "string \<Rightarrow> property_value option" where
  "lookup_achievement achievementId =
     (case map_of ACHIEVEMENT_DATA achievementId of
        Some a \<Rightarrow> Some (Own a)
      | None \<Rightarrow>
          if achievementId \<in> set Object_prototype_keys
          then Some (Inherited achievementId) else None)"

text \<open>
  \<open>AchievementBadge\<close> returns \<open>null\<close> (here \<open>None\<close>) where the lookup is falsy, and
  otherwise an element built from the value found, the size and the tooltip flag; the
  markup of the element is not modelled further.
\<close>

datatype element = Badge property_value string bool

definition AchievementBadge :: "string \<Rightarrow> string \<Rightarrow> bool \<Rightarrow> element option" where
  "AchievementBadge achievementId size_prop showTooltip =
     (case lookup_achievement achievementId of
        None \<Rightarrow> None
      | Some achievement \<Rightarrow> Some (Badge achievement size_prop showTooltip))"


section \<open>Signup form\<close>

text \<open>
  A JavaScript string is a sequence of UTF-16 code units, and \<open>length\<close> counts them.
  The form state of \<open>Signup\<close> is recorded together with its effects: the calls of
  \<open>signup(email, password, name)\<close> and the routes passed to \<open>navigate\<close>.
\<close>

type_synonym jsstring = "16 word list"

record signup_state =
  name_field :: jsstring
  email :: jsstring
  password :: jsstring
  confirmPassword :: jsstring
  error :: string
  loading_signup :: bool
  signup_calls :: "(jsstring \<times> jsstring \<times> jsstring) list"
  navigations :: "string list"

text \<open>
  How the \<open>signup\<close> request settles: it resolves, or it rejects with an error whose
  \<open>response.data.detail\<close> may be missing.
\<close>

datatype signup_outcome = SignupResolved | SignupRejected "string option"

text \<open>
  \<open>Signup.handleSubmit\<close>, the same in both versions of the page. An empty
  \<open>detail\<close> is falsy and gives the fallback message as a missing one does.
\<close>

definition handleSubmit_signup :: "signup_outcome \<Rightarrow> signup_state \<Rightarrow> signup_state" where
  "handleSubmit_signup outcome s0 =
     (let s = s0\<lparr>error := ''''\<rparr> in
      if password s \<noteq> confirmPassword s then s\<lparr>error := ''Passwords do not match''\<rparr>
      else if length (password s) < 6
      then s\<lparr>error := ''Password must be at least 6 characters''\<rparr>
      else
        let s1 = s\<lparr>loading_signup := True\<rparr>;
            s2 = s1\<lparr>signup_calls := signup_calls s1 @ [(email s1, password s1, name_field s1)]\<rparr>
        in case outcome of
             SignupResolved \<Rightarrow>
               s2\<lparr>navigations := navigations s2 @ [''/quiz''], loading_signup := False\<rparr>
           | SignupRejected detail \<Rightarrow>
               s2\<lparr>error :=
                    (case detail of
                       None \<Rightarrow> ''Signup failed. Please try again.''
                     | Some d \<Rightarrow> if d = '''' then ''Signup failed. Please try again.'' else d),
                  loading_signup := False\<rparr>)"


section \<open>Notions used in the statements\<close>

text \<open>
  "Rounded to the nearest integer": \<open>r\<close> is an integer nearest to \<open>x\<close>, that is, at
  distance at most one half. At a tie both neighbours are nearest.
\<close>

definition nearest_integer :: "rat \<Rightarrow> int \<Rightarrow> bool" where
  "nearest_integer x r = (\<bar>x - of_int r\<bar> \<le> 1 / 2)"

text \<open>
  The invariant of the quiz wizard: the answers are written in order and without gaps, up
  to the question shown at the latest.
\<close>

definition quiz_inv :: "quiz_state \<Rightarrow> bool" where
  "quiz_inv s =
     (length (answers s) \<le> length (questions s) \<and>
      currentQuestion s \<le> length (answers s) \<and>
      list_all (\<lambda>a. a \<noteq> None) (answers s))"


section \<open>Example inputs\<close>

text \<open>
  A catalog entry with identifier \<open>i\<close> and \<open>n\<close> milestones, numbered from \<open>0\<close>, and a
  progress record for path \<open>i\<close> in which the first \<open>c\<close> of them are completed.
\<close>

definition path_of :: "nat \<Rightarrow> nat \<Rightarrow> nat career_path" where
  "path_of i n =
     \<lparr>id_path = i, name_path = ''Path'', description_path = ''A career path'',
      icon_path = ''code'',
      milestones = map (\<lambda>k. \<lparr>id_milestone = k, estimated_days = 7\<rparr>) [0..<n]\<rparr>"

definition progress_of :: "nat \<Rightarrow> nat \<Rightarrow> nat progress_record" where
  "progress_of i c = \<lparr>user_id = 0, career_path_id = i, completed_milestones = [0..<c]\<rparr>"

text \<open>A quiz of two questions with two options each.\<close>

definition two_questions :: "question list" where
  "two_questions =
     [\<lparr>id_question = ''q1'', question_text = ''First question'', options = [''a'', ''b'']\<rparr>,
      \<lparr>id_question = ''q2'', question_text = ''Second question'', options = [''c'', ''d'']\<rparr>]"


section \<open>Rounding to binary64\<close>

text \<open>
  The facts about \<open>fl\<close> that the dashboard needs: rounding moves a positive number by at
  most one part in \<open>2^53\<close>.
\<close>

lemma round_even_error: "\<bar>of_int (round_even z) - z\<bar> \<le> 1 / 2"
proof -
  have "of_int \<lfloor>z\<rfloor> \<le> z" "z < of_int \<lfloor>z\<rfloor> + 1" by linarith+
  then show ?thesis
    unfolding round_even_def Let_def by (auto simp: abs_le_iff)
qed

lemma expo_lower:
  assumes "0 < x"
  shows "2 powi (expo x) \<le> x"
proof -
  obtain p q where pq: "quotient_of x = (p, q)" by (cases "quotient_of x")
  have q: "0 < q" using pq by (rule quotient_of_denom_pos)
  have x: "x = of_int p / of_int q" using pq by (rule quotient_of_div)
  have p: "0 < p" using assms q x by (simp add: zero_less_divide_iff)
  define e where "e = bitlen p - bitlen q"
  show ?thesis
  proof (cases "2 powi e \<le> x")
    case True
    then show ?thesis by (simp add: expo_def pq e_def)
  next
    case False
    have bp: "1 \<le> bitlen p" and bq: "1 \<le> bitlen q"
      using p q by (simp_all add: bitlen_alt_def)
    have "(2::int) ^ nat (bitlen p - 1) \<le> p" using bitlen_bounds [OF p] by simp
    then have "(of_int ((2::int) ^ nat (bitlen p - 1)) :: rat) \<le> of_int p"
      by (simp only: of_int_le_iff)
    then have lo: "(2::rat) powi (bitlen p - 1) \<le> of_int p"
      using bp by (simp add: power_int_def)
    have "q < (2::int) ^ nat (bitlen q)" using bitlen_bounds [OF q] by simp
    then have "(of_int q :: rat) < of_int ((2::int) ^ nat (bitlen q))"
      by (simp only: of_int_less_iff)
    then have hi: "of_int q \<le> (2::rat) powi (bitlen q)"
      using bq by (simp add: power_int_def)
    have "(2::rat) powi (e - 1) = 2 powi (bitlen p - 1) / 2 powi (bitlen q)"
      unfolding e_def using power_int_diff [of "2::rat" "bitlen p - 1" "bitlen q"]
      by (simp add: algebra_simps)
    also have "\<dots> \<le> of_int p / 2 powi (bitlen q)"
      using lo by (simp add: divide_right_mono)
    also have "\<dots> \<le> of_int p / of_int q"
      using hi p q by (simp add: divide_left_mono)
    finally have "(2::rat) powi (e - 1) \<le> x" using x by simp
    with False show ?thesis by (simp add: expo_def pq e_def)
  qed
qed

lemma expo_upper:
  assumes "0 < x"
  shows "x < 2 powi (expo x + 1)"
proof -
  obtain p q where pq: "quotient_of x = (p, q)" by (cases "quotient_of x")
  have q: "0 < q" using pq by (rule quotient_of_denom_pos)
  have x: "x = of_int p / of_int q" using pq by (rule quotient_of_div)
  have p: "0 < p" using assms q x by (simp add: zero_less_divide_iff)
  define e where "e = bitlen p - bitlen q"
  show ?thesis
  proof (cases "2 powi e \<le> x")
    case True
    have bp: "1 \<le> bitlen p" and bq: "1 \<le> bitlen q"
      using p q by (simp_all add: bitlen_alt_def)
    have "p < (2::int) ^ nat (bitlen p)" using bitlen_bounds [OF p] by simp
    then have "(of_int p :: rat) < of_int ((2::int) ^ nat (bitlen p))"
      by (simp only: of_int_less_iff)
    then have hi: "of_int p < (2::rat) powi (bitlen p)"
      using bp by (simp add: power_int_def)
    have "(2::int) ^ nat (bitlen q - 1) \<le> q" using bitlen_bounds [OF q] by simp
    then have "(of_int ((2::int) ^ nat (bitlen q - 1)) :: rat) \<le> of_int q"
      by (simp only: of_int_le_iff)
    then have lo: "(2::rat) powi (bitlen q - 1) \<le> of_int q"
      using bq by (simp add: power_int_def)
    have "of_int p / of_int q < (2::rat) powi (bitlen p) / of_int q"
      using hi q by (simp add: divide_strict_right_mono)
    also have "\<dots> \<le> 2 powi (bitlen p) / 2 powi (bitlen q - 1)"
      using lo q by (intro divide_left_mono) (simp_all add: zero_less_mult_iff)
    also have "\<dots> = (2::rat) powi (e + 1)"
      unfolding e_def using power_int_diff [of "2::rat" "bitlen p" "bitlen q - 1"]
      by (simp add: algebra_simps)
    finally have "x < (2::rat) powi (e + 1)" using x by simp
    with True show ?thesis by (simp add: expo_def pq e_def)
  next
    case False
    then show ?thesis by (simp add: expo_def pq e_def)
  qed
qed

lemma fl_error:
  assumes "0 < x"
  shows "\<bar>fl x - x\<bar> \<le> x / 2 ^ 53"
proof -
  define s where "s = 52 - expo x"
  define z where "z = x * 2 powi s"
  have fl: "fl x = of_int (round_even z) * 2 powi (- s)"
    using assms by (simp add: fl_def Let_def s_def z_def)
  have unscale: "z * 2 powi (- s) = x"
    unfolding z_def by (simp add: power_int_minus field_simps)
  have "fl x - x = (of_int (round_even z) - z) * 2 powi (- s)"
    using fl unscale by (simp add: algebra_simps)
  then have "\<bar>fl x - x\<bar> = \<bar>of_int (round_even z) - z\<bar> * 2 powi (- s)"
    by (simp add: abs_mult)
  also have "\<dots> \<le> (1 / 2) * 2 powi (- s)"
    using round_even_error [of z] by (intro mult_right_mono) simp_all
  also have "\<dots> = 2 powi (expo x) / 2 ^ 53"
  proof -
    have "(2::rat) powi (- s) = 2 powi (expo x - 52)" by (simp add: s_def)
    also have "\<dots> = 2 powi (expo x) / 2 powi 52"
      by (rule power_int_diff) simp
    finally show ?thesis by simp
  qed
  also have "\<dots> \<le> x / 2 ^ 53"
    using expo_lower [OF assms] by (simp add: divide_right_mono)
  finally show ?thesis .
qed

text \<open>Some binary64 values, as every implementation of IEEE-754 computes them.\<close>

lemma fl_examples:
  "fl (1 / 3) = 6004799503160661 / 2 ^ 54"
  "fl (fl (29 / 200) * 100) = 8162774324609023 / 2 ^ 49"
  "fl (fl (199 / 200) * 100) = 199 / 2"
  "fl (fl (2 / 5) * 100) = 40"
  by code_simp+

lemma fl_fl_error:
  assumes x: "0 < x"
  shows "\<bar>fl (fl x * 100) - 100 * x\<bar> \<le> 300 * x / 2 ^ 53"
proof -
  define u :: rat where "u = 1 / 2 ^ 53"
  have u: "0 < u" "u \<le> 1" by (simp_all add: u_def)
  have e1: "\<bar>fl x - x\<bar> \<le> x * u" using fl_error [OF x] by (simp add: u_def)
  then have f_lo: "x * (1 - u) \<le> fl x" and f_hi: "fl x \<le> x * (1 + u)"
    by (simp_all add: abs_le_iff algebra_simps)
  have "0 < x * (1 - u)" using x by (simp add: u_def)
  with f_lo have f_pos: "0 < fl x * 100" by simp
  have e2: "\<bar>fl (fl x * 100) - fl x * 100\<bar> \<le> fl x * 100 * u"
    using fl_error [OF f_pos] by (simp add: u_def)
  have "fl x * 100 * u \<le> x * (1 + u) * 100 * u"
    using f_hi u by (simp add: mult_right_mono)
  also have "\<dots> \<le> x * 2 * 100 * u"
    using x u by (simp add: mult_left_mono mult_right_mono)
  finally have "fl x * 100 * u \<le> 200 * x * u" by simp
  with e2 have e2': "\<bar>fl (fl x * 100) - fl x * 100\<bar> \<le> 200 * x * u"
    by linarith
  from e1 have "fl x - x \<le> x * u" "x - fl x \<le> x * u"
    by (simp_all add: abs_le_iff)
  moreover from e2' have "fl (fl x * 100) - fl x * 100 \<le> 200 * x * u"
    "fl x * 100 - fl (fl x * 100) \<le> 200 * x * u"
    by (simp_all add: abs_le_iff)
  ultimately have "fl (fl x * 100) - 100 * x \<le> 300 * x * u"
    "100 * x - fl (fl x * 100) \<le> 300 * x * u"
    by linarith+
  then have "\<bar>fl (fl x * 100) - 100 * x\<bar> \<le> 300 * x * u"
    unfolding abs_le_iff by linarith
  then show ?thesis by (simp add: u_def)
qed

lemma round_percent:
  assumes m: "0 < m" and c: "c < 2 ^ 32"
  shows "\<exists>r. Math_round (js_mul (js_div (Num (of_nat c)) (Num (of_nat m))) (Num 100)) = Num (of_int r) \<and>
             (2 * r - 1) * int m \<le> 200 * int c \<and> 200 * int c \<le> (2 * r + 1) * int m"
proof -
  define y where "y = fl (fl (of_nat c / of_nat m) * 100)"
  define r where "r = \<lfloor>y + 1 / 2\<rfloor>"
  have p: "Math_round (js_mul (js_div (Num (of_nat c)) (Num (of_nat m))) (Num 100)) = Num (of_int r)"
    using m by (simp add: y_def r_def)
  have r1: "of_int r \<le> y + 1 / 2" and r2: "y + 1 / 2 < of_int r + 1"
    unfolding r_def by linarith+
  have near: "\<bar>2 * of_nat m * y - 200 * of_nat c\<bar> < 1"
  proof (cases "c = 0")
    case True
    then show ?thesis by (simp add: y_def fl_def)
  next
    case False
    define x :: rat where "x = of_nat c / of_nat m"
    have x: "0 < x" using False m by (simp add: x_def)
    have "\<bar>y - 100 * x\<bar> \<le> 300 * x / 2 ^ 53"
      unfolding y_def x_def [symmetric] by (rule fl_fl_error [OF x])
    then have "2 * of_nat m * \<bar>y - 100 * x\<bar> \<le> 2 * of_nat m * (300 * x / 2 ^ 53)"
      by (intro mult_left_mono) simp_all
    also have "2 * of_nat m * (300 * x / 2 ^ 53) = 600 * of_nat c / 2 ^ 53"
      using m by (simp add: x_def)
    also have "2 * of_nat m * \<bar>y - 100 * x\<bar> = \<bar>2 * of_nat m * y - 200 * of_nat c\<bar>"
    proof -
      have "2 * of_nat m * \<bar>y - 100 * x\<bar> = \<bar>2 * of_nat m * (y - 100 * x)\<bar>"
        by (simp add: abs_mult)
      also have "2 * of_nat m * (y - 100 * x) = 2 * of_nat m * y - 200 * of_nat c"
        using m by (simp add: x_def algebra_simps)
      finally show ?thesis .
    qed
    finally have "\<bar>2 * of_nat m * y - 200 * of_nat c\<bar> \<le> 600 * of_nat c / 2 ^ 53" .
    moreover have "600 * (of_nat c :: rat) / 2 ^ 53 < 1"
    proof -
      have "(of_nat c :: rat) < of_nat (2 ^ 32)" using c by (simp only: of_nat_less_iff)
      then show ?thesis by simp
    qed
    ultimately show ?thesis by linarith
  qed
  have mpos: "(0::rat) < of_nat m" using m by simp
  have a1: "of_int r * (2 * of_nat m) \<le> (y + 1 / 2) * (2 * of_nat m)"
    using r1 mpos by (intro mult_right_mono) simp_all
  have a2: "(y + 1 / 2) * (2 * of_nat m) < (of_int r + 1) * (2 * of_nat m)"
    using r2 mpos by (intro mult_strict_right_mono) simp_all
  from a1 a2 near
  have "(of_int ((2 * r - 1) * int m) :: rat) < of_int (200 * int c) + 1"
    and "(of_int (200 * int c) :: rat) < of_int ((2 * r + 1) * int m) + 1"
    by (simp_all add: algebra_simps abs_less_iff)
  then have "(of_int ((2 * r - 1) * int m) :: rat) < of_int (200 * int c + 1)"
    and "(of_int (200 * int c) :: rat) < of_int ((2 * r + 1) * int m + 1)"
    by simp_all
  then have "(2 * r - 1) * int m < 200 * int c + 1" "200 * int c < (2 * r + 1) * int m + 1"
    by (simp_all only: of_int_less_iff)
  with p show ?thesis by auto
qed

section \<open>Dashboard: the percentage of a path\<close>

text \<open>The tie \<open>199/200\<close>: the product is exactly \<open>99.5\<close>, which rounds up.\<close>

lemma percent_tie: "Math_round (js_mul (Num (fl (199 / 200))) (Num 100)) = Num 100"
  by code_simp

lemma getPathProgress_found:
  assumes "find (\<lambda>p. career_path_id p = pathId) userProgress = Some progress"
    and "find (\<lambda>p. id_path p = pathId) careerPaths = Some path"
  shows "getPathProgress careerPaths userProgress pathId =
           Math_round
             (js_mul
                (js_div (Num (of_nat (length (completed_milestones progress))))
                   (Num (of_nat (length (milestones path)))))
                (Num 100))"
  using assms by (simp add: getPathProgress_def js_length_def)

text \<open>
  C1 (as amended). Where the path has a progress record and a catalog entry with at least
  one milestone (array lengths are below \<open>2^32\<close>), and no more milestones are completed
  than the path has, the percentage of \<open>getPathProgress\<close> is an integer from 0 to 100. It
  is 100 exactly when the completed count is at least 99.5% of the milestone count
  (\<open>199 * milestones \<le> 200 * completed\<close>), so in particular when the two counts are equal.
\<close>

theorem getPathProgress_range:
  assumes prog: "find (\<lambda>p. career_path_id p = pathId) userProgress = Some progress"
    and path: "find (\<lambda>p. id_path p = pathId) careerPaths = Some path"
    and m: "0 < length (milestones path)"
    and le: "length (completed_milestones progress) \<le> length (milestones path)"
    and bound: "length (milestones path) < 2 ^ 32"
  shows "\<exists>r. getPathProgress careerPaths userProgress pathId = Num (of_int r) \<and>
             0 \<le> r \<and> r \<le> 100 \<and>
             (r = 100 \<longleftrightarrow>
                199 * length (milestones path) \<le> 200 * length (completed_milestones progress)) \<and>
             (length (completed_milestones progress) = length (milestones path) \<longrightarrow> r = 100)"
proof -
  define c where "c = length (completed_milestones progress)"
  define m where "m = length (milestones path)"
  have c: "c < 2 ^ 32" and m0: "0 < m" and cm: "c \<le> m"
    using le bound m by (simp_all add: c_def m_def)
  have val: "getPathProgress careerPaths userProgress pathId =
      Math_round (js_mul (js_div (Num (of_nat c)) (Num (of_nat m))) (Num 100))"
    using getPathProgress_found [OF prog path] by (simp add: c_def m_def)
  obtain r where r: "Math_round (js_mul (js_div (Num (of_nat c)) (Num (of_nat m))) (Num 100))
        = Num (of_int r)"
    and lo: "(2 * r - 1) * int m \<le> 200 * int c"
    and hi: "200 * int c \<le> (2 * r + 1) * int m"
    using round_percent [OF m0 c] by blast
  have mi: "0 < int m" using m0 by simp
  have "0 \<le> (2 * r + 1) * int m" using hi by linarith
  then have "0 \<le> 2 * r + 1" using mi by (simp add: zero_le_mult_iff)
  then have r0: "0 \<le> r" by linarith
  have "(2 * r - 1) * int m \<le> 200 * int m" using lo cm by linarith
  then have "2 * r - 1 \<le> 200" using mi by simp
  then have r100: "r \<le> 100" by linarith
  have iff: "r = 100 \<longleftrightarrow> 199 * m \<le> 200 * c"
  proof
    assume "r = 100"
    with lo have "199 * int m \<le> 200 * int c" by simp
    then show "199 * m \<le> 200 * c" by linarith
  next
    assume a: "199 * m \<le> 200 * c"
    show "r = 100"
    proof (cases "199 * m = 200 * c")
      case True
      have "(of_nat c :: rat) * 200 = of_nat m * 199"
        using True by (metis of_nat_mult of_nat_numeral mult.commute)
      then have q: "(of_nat c :: rat) / of_nat m = 199 / 200"
        using m0 by (simp add: field_simps)
      have "js_div (Num (of_nat c)) (Num (of_nat m)) = Num (fl (of_nat c / of_nat m))"
        using m0 by simp
      then have "js_div (Num (of_nat c)) (Num (of_nat m)) = Num (fl (199 / 200))"
        by (simp only: q)
      then have "Math_round (js_mul (js_div (Num (of_nat c)) (Num (of_nat m))) (Num 100)) = Num 100"
        by (simp only: percent_tie)
      with r have "(of_int r :: rat) = 100" by simp
      then have "(of_int r :: rat) = of_int 100" by simp
      then show ?thesis by (simp only: of_int_eq_iff)
    next
      case False
      with a have "199 * int m < 200 * int c" by linarith
      with hi have "199 * int m < (2 * r + 1) * int m" by linarith
      then have "199 < 2 * r + 1" using mi by simp
      with r100 show ?thesis by linarith
    qed
  qed
  have v: "getPathProgress careerPaths userProgress pathId = Num (of_int r)"
    using val r by simp
  have "getPathProgress careerPaths userProgress pathId = Num (of_int r) \<and>
        0 \<le> r \<and> r \<le> 100 \<and>
        (r = 100 \<longleftrightarrow>
           199 * length (milestones path) \<le> 200 * length (completed_milestones progress)) \<and>
        (length (completed_milestones progress) = length (milestones path) \<longrightarrow> r = 100)"
    using v r0 r100 iff by (simp add: c_def m_def)
  then show ?thesis ..
qed


text \<open>The theorem at a path of four milestones with three completed.\<close>

theorem getPathProgress_range_witness:
  "find (\<lambda>p. career_path_id p = 1) [progress_of 1 3] = Some (progress_of 1 3) \<and>
   find (\<lambda>p. id_path p = 1) [path_of 1 4] = Some (path_of 1 4) \<and>
   0 < length (milestones (path_of 1 4)) \<and>
   length (completed_milestones (progress_of 1 3)) \<le> length (milestones (path_of 1 4)) \<and>
   length (milestones (path_of 1 4)) < 2 ^ 32 \<and>
   (\<exists>r. getPathProgress [path_of 1 4] [progress_of 1 3] 1 = Num (of_int r) \<and>
        0 \<le> r \<and> r \<le> 100 \<and>
        (r = 100 \<longleftrightarrow>
           199 * length (milestones (path_of 1 4))
             \<le> 200 * length (completed_milestones (progress_of 1 3))) \<and>
        (length (completed_milestones (progress_of 1 3)) = length (milestones (path_of 1 4))
           \<longrightarrow> r = 100))"
proof -
  have h1: "find (\<lambda>p. career_path_id p = 1) [progress_of 1 3] = Some (progress_of 1 3)"
    by (simp add: progress_of_def)
  have h2: "find (\<lambda>p. id_path p = 1) [path_of 1 4] = Some (path_of 1 4)"
    by (simp add: path_of_def)
  have h3: "0 < length (milestones (path_of 1 4))"
    by (simp add: path_of_def)
  have h4: "length (completed_milestones (progress_of 1 3)) \<le> length (milestones (path_of 1 4))"
    by (simp add: path_of_def progress_of_def)
  have h5: "length (milestones (path_of 1 4)) < 2 ^ 32"
    by (simp add: path_of_def)
  show ?thesis
    using getPathProgress_range [OF h1 h2 h3 h4 h5] h1 h2 h3 h4 h5 by (intro conjI)
qed

text \<open>
  C1 as stated fails in both directions. With 199 of 200 milestones completed (a subset of
  the path's milestones) the ratio times 100 is 99.5 and \<open>Math.round\<close> gives 100, though
  the two counts differ. For a path without milestones and a record without completed
  ones the counts are equal, and the percentage is \<open>NaN\<close>.
\<close>

theorem getPathProgress_100_counterexample:
  "getPathProgress [path_of 1 200] [progress_of 1 199] 1 = Num 100 \<and>
   length (completed_milestones (progress_of 1 199)) \<noteq> length (milestones (path_of 1 200)) \<and>
   set (completed_milestones (progress_of 1 199))
     \<subseteq> id_milestone ` set (milestones (path_of 1 200)) \<and>
   getPathProgress [path_of 2 0] [progress_of 2 0] 2 = NaN \<and>
   length (completed_milestones (progress_of 2 0)) = length (milestones (path_of 2 0))"
proof (intro conjI)
  show "getPathProgress [path_of 1 200] [progress_of 1 199] 1 = Num 100"
    by code_simp
  show "length (completed_milestones (progress_of 1 199)) \<noteq> length (milestones (path_of 1 200))"
    by (simp add: path_of_def progress_of_def)
  show "set (completed_milestones (progress_of 1 199))
     \<subseteq> id_milestone ` set (milestones (path_of 1 200))"
    by (auto simp: path_of_def progress_of_def image_image)
  show "getPathProgress [path_of 2 0] [progress_of 2 0] 2 = NaN"
    by (simp add: getPathProgress_def path_of_def progress_of_def js_length_def)
  show "length (completed_milestones (progress_of 2 0)) = length (milestones (path_of 2 0))"
    by (simp add: path_of_def progress_of_def)
qed

text \<open>
  \<open>nearest_integer\<close> says what it should: no integer is closer to \<open>x\<close> than \<open>r\<close>.
\<close>

lemma nearest_integer_iff: "nearest_integer x r \<longleftrightarrow> (\<forall>k. \<bar>x - of_int r\<bar> \<le> \<bar>x - of_int k\<bar>)"
proof
  assume n: "nearest_integer x r"
  show "\<forall>k. \<bar>x - of_int r\<bar> \<le> \<bar>x - of_int k\<bar>"
  proof
    fix k :: int
    show "\<bar>x - of_int r\<bar> \<le> \<bar>x - of_int k\<bar>"
    proof (cases "k = r")
      case True
      then show ?thesis by simp
    next
      case False
      then have "1 \<le> \<bar>r - k\<bar>" by linarith
      then have "(of_int 1 :: rat) \<le> of_int \<bar>r - k\<bar>" by (simp only: of_int_le_iff)
      then have "(1 :: rat) \<le> \<bar>of_int r - of_int k\<bar>" by simp
      with n show ?thesis unfolding nearest_integer_def by linarith
    qed
  qed
next
  assume a: "\<forall>k. \<bar>x - of_int r\<bar> \<le> \<bar>x - of_int k\<bar>"
  have "of_int \<lfloor>x + 1 / 2\<rfloor> \<le> x + 1 / 2" "x + 1 / 2 < of_int \<lfloor>x + 1 / 2\<rfloor> + 1"
    by linarith+
  then have "\<bar>x - of_int \<lfloor>x + 1 / 2\<rfloor>\<bar> \<le> 1 / 2" by linarith
  with a [rule_format, of "\<lfloor>x + 1 / 2\<rfloor>"] show "nearest_integer x r"
    unfolding nearest_integer_def by linarith
qed

text \<open>
  C4 (as amended). Where no progress record matches the path, \<open>getPathProgress\<close> returns
  0. Where a progress record and a catalog entry match and the path has at least one
  milestone (array lengths are below \<open>2^32\<close>), it returns an integer nearest to
  completed count / milestone count * 100.
\<close>

theorem getPathProgress_value:
  "(find (\<lambda>p. career_path_id p = pathId) userProgress = None \<longrightarrow>
      getPathProgress careerPaths userProgress pathId = Num 0) \<and>
   (\<forall>progress path.
      find (\<lambda>p. career_path_id p = pathId) userProgress = Some progress \<and>
      find (\<lambda>p. id_path p = pathId) careerPaths = Some path \<and>
      0 < length (milestones path) \<and>
      length (milestones path) < 2 ^ 32 \<and>
      length (completed_milestones progress) < 2 ^ 32 \<longrightarrow>
      (\<exists>r. getPathProgress careerPaths userProgress pathId = Num (of_int r) \<and>
           nearest_integer
             (of_nat (length (completed_milestones progress))
                / of_nat (length (milestones path)) * 100) r))"
proof (intro conjI allI impI)
  assume "find (\<lambda>p. career_path_id p = pathId) userProgress = None"
  then show "getPathProgress careerPaths userProgress pathId = Num 0"
    by (simp add: getPathProgress_def)
next
  fix progress path
  assume a: "find (\<lambda>p. career_path_id p = pathId) userProgress = Some progress \<and>
      find (\<lambda>p. id_path p = pathId) careerPaths = Some path \<and>
      0 < length (milestones path) \<and>
      length (milestones path) < 2 ^ 32 \<and>
      length (completed_milestones progress) < 2 ^ 32"
  define c where "c = length (completed_milestones progress)"
  define m where "m = length (milestones path)"
  have m0: "0 < m" and c: "c < 2 ^ 32" using a by (simp_all add: c_def m_def)
  have val: "getPathProgress careerPaths userProgress pathId =
      Math_round (js_mul (js_div (Num (of_nat c)) (Num (of_nat m))) (Num 100))"
    using a getPathProgress_found [of pathId userProgress progress careerPaths path]
    by (simp add: c_def m_def)
  obtain r where r: "Math_round (js_mul (js_div (Num (of_nat c)) (Num (of_nat m))) (Num 100))
        = Num (of_int r)"
    and lo: "(2 * r - 1) * int m \<le> 200 * int c"
    and hi: "200 * int c \<le> (2 * r + 1) * int m"
    using round_percent [OF m0 c] by blast
  have mq: "(0::rat) < of_nat m" using m0 by simp
  from lo have "(of_int ((2 * r - 1) * int m) :: rat) \<le> of_int (200 * int c)"
    by (simp only: of_int_le_iff)
  then have lo': "(2 * of_int r - 1) * of_nat m \<le> 200 * (of_nat c :: rat)" by simp
  from hi have "(of_int (200 * int c) :: rat) \<le> of_int ((2 * r + 1) * int m)"
    by (simp only: of_int_le_iff)
  then have hi': "200 * (of_nat c :: rat) \<le> (2 * of_int r + 1) * of_nat m" by simp
  have "of_int r - 1 / 2 \<le> (of_nat c :: rat) / of_nat m * 100"
    using lo' mq by (simp add: field_simps)
  moreover have "(of_nat c :: rat) / of_nat m * 100 \<le> of_int r + 1 / 2"
    using hi' mq by (simp add: field_simps)
  ultimately have "nearest_integer (of_nat c / of_nat m * 100) r"
    unfolding nearest_integer_def by linarith
  with val r have "getPathProgress careerPaths userProgress pathId = Num (of_int r) \<and>
      nearest_integer (of_nat (length (completed_milestones progress))
                / of_nat (length (milestones path)) * 100) r"
    by (simp add: c_def m_def)
  then show "\<exists>r. getPathProgress careerPaths userProgress pathId = Num (of_int r) \<and>
           nearest_integer
             (of_nat (length (completed_milestones progress))
                / of_nat (length (milestones path)) * 100) r" ..
qed

text \<open>
  The theorem at a path of four milestones with three completed, and at a path without a
  progress record.
\<close>

theorem getPathProgress_value_witness:
  "find (\<lambda>p. career_path_id p = 2) [progress_of 1 3] = None \<and>
   getPathProgress [path_of 1 4] [progress_of 1 3] 2 = Num 0 \<and>
   find (\<lambda>p. career_path_id p = 1) [progress_of 1 3] = Some (progress_of 1 3) \<and>
   find (\<lambda>p. id_path p = 1) [path_of 1 4] = Some (path_of 1 4) \<and>
   0 < length (milestones (path_of 1 4)) \<and>
   length (milestones (path_of 1 4)) < 2 ^ 32 \<and>
   length (completed_milestones (progress_of 1 3)) < 2 ^ 32 \<and>
   (\<exists>r. getPathProgress [path_of 1 4] [progress_of 1 3] 1 = Num (of_int r) \<and>
        nearest_integer
          (of_nat (length (completed_milestones (progress_of 1 3)))
             / of_nat (length (milestones (path_of 1 4))) * 100) r)"
proof -
  have n: "find (\<lambda>p. career_path_id p = 2) [progress_of 1 3] = None"
    by (simp add: progress_of_def)
  have h: "find (\<lambda>p. career_path_id p = 1) [progress_of 1 3] = Some (progress_of 1 3) \<and>
      find (\<lambda>p. id_path p = 1) [path_of 1 4] = Some (path_of 1 4) \<and>
      0 < length (milestones (path_of 1 4)) \<and>
      length (milestones (path_of 1 4)) < 2 ^ 32 \<and>
      length (completed_milestones (progress_of 1 3)) < 2 ^ 32"
    by (simp add: path_of_def progress_of_def)
  from getPathProgress_value [of 2 "[progress_of 1 3]" "[path_of 1 4]"] n
  have z: "getPathProgress [path_of 1 4] [progress_of 1 3] 2 = Num 0" by blast
  from getPathProgress_value [of 1 "[progress_of 1 3]" "[path_of 1 4]"] h
  have "\<exists>r. getPathProgress [path_of 1 4] [progress_of 1 3] 1 = Num (of_int r) \<and>
        nearest_integer
          (of_nat (length (completed_milestones (progress_of 1 3)))
             / of_nat (length (milestones (path_of 1 4))) * 100) r"
    by blast
  with n z h show ?thesis by blast
qed

text \<open>
  C4 as stated fails for a path without milestones: a progress record and a catalog entry
  match, and \<open>0 / 0 * 100\<close> is \<open>NaN\<close>, which \<open>Math.round\<close> returns as it is.
\<close>

theorem getPathProgress_value_counterexample:
  "find (\<lambda>p. career_path_id p = 1) [progress_of 1 0] = Some (progress_of 1 0) \<and>
   find (\<lambda>p. id_path p = 1) [path_of 1 0] = Some (path_of 1 0) \<and>
   getPathProgress [path_of 1 0] [progress_of 1 0] 1 = NaN"
  by (simp add: getPathProgress_def path_of_def progress_of_def js_length_def)

text \<open>
  C5. Three paths of 4, 5 and 2 milestones with 4, 2 and 2 of them completed: the
  percentages are 100, 40 and 100, two paths are completed, and the average is 80. The
  average is taken over the records of the progress list: a fourth path of the catalog
  that was never started leaves it at 80.
\<close>

theorem dashboard_example:
  "map (getPathProgress [path_of 1 4, path_of 2 5, path_of 3 2]
          [progress_of 1 4, progress_of 2 2, progress_of 3 2]) [1, 2, 3]
     = [Num 100, Num 40, Num 100] \<and>
   getCompletedCount [path_of 1 4, path_of 2 5, path_of 3 2]
     [progress_of 1 4, progress_of 2 2, progress_of 3 2] = 2 \<and>
   averageProgress [path_of 1 4, path_of 2 5, path_of 3 2]
     [progress_of 1 4, progress_of 2 2, progress_of 3 2] = Num 80 \<and>
   averageProgress [path_of 1 4, path_of 2 5, path_of 3 2, path_of 4 6]
     [progress_of 1 4, progress_of 2 2, progress_of 3 2] = Num 80"
proof (intro conjI)
  show "map (getPathProgress [path_of 1 4, path_of 2 5, path_of 3 2]
          [progress_of 1 4, progress_of 2 2, progress_of 3 2]) [1, 2, 3]
     = [Num 100, Num 40, Num 100]"
    by code_simp
  show "getCompletedCount [path_of 1 4, path_of 2 5, path_of 3 2]
     [progress_of 1 4, progress_of 2 2, progress_of 3 2] = 2"
    by code_simp
  show "averageProgress [path_of 1 4, path_of 2 5, path_of 3 2]
     [progress_of 1 4, progress_of 2 2, progress_of 3 2] = Num 80"
    by code_simp
  show "averageProgress [path_of 1 4, path_of 2 5, path_of 3 2, path_of 4 6]
     [progress_of 1 4, progress_of 2 2, progress_of 3 2] = Num 80"
    by code_simp
qed

text \<open>
  C10. Where the catalog has no entry for the path, \<open>getPathProgress\<close> returns 0, whatever
  the progress list holds. A result that is not a finite number can only come from the
  division, and then a progress record and a catalog entry were found, the entry having
  no milestones: nothing is divided for a missing path.
\<close>

theorem getPathProgress_total:
  "(find (\<lambda>p. id_path p = pathId) careerPaths = None \<longrightarrow>
      getPathProgress careerPaths userProgress pathId = Num 0) \<and>
   (getPathProgress careerPaths userProgress pathId = NaN \<or>
    getPathProgress careerPaths userProgress pathId = PosInf \<longrightarrow>
      (\<exists>progress path.
         find (\<lambda>p. career_path_id p = pathId) userProgress = Some progress \<and>
         find (\<lambda>p. id_path p = pathId) careerPaths = Some path \<and>
         milestones path = []))"
proof (intro conjI impI)
  assume "find (\<lambda>p. id_path p = pathId) careerPaths = None"
  then show "getPathProgress careerPaths userProgress pathId = Num 0"
    by (simp add: getPathProgress_def split: option.splits)
next
  assume a: "getPathProgress careerPaths userProgress pathId = NaN \<or>
    getPathProgress careerPaths userProgress pathId = PosInf"
  then obtain progress where p: "find (\<lambda>p. career_path_id p = pathId) userProgress = Some progress"
    by (cases "find (\<lambda>p. career_path_id p = pathId) userProgress")
      (auto simp: getPathProgress_def)
  from a p obtain path where q: "find (\<lambda>p. id_path p = pathId) careerPaths = Some path"
    by (cases "find (\<lambda>p. id_path p = pathId) careerPaths")
      (auto simp: getPathProgress_def)
  have "milestones path = []"
  proof (rule ccontr)
    assume "milestones path \<noteq> []"
    then have "getPathProgress careerPaths userProgress pathId =
        Num (of_int \<lfloor>fl (fl (of_nat (length (completed_milestones progress))
          / of_nat (length (milestones path))) * 100) + 1 / 2\<rfloor>)"
      using p q by (simp add: getPathProgress_def js_length_def)
    with a show False by simp
  qed
  with p q show "\<exists>progress path.
         find (\<lambda>p. career_path_id p = pathId) userProgress = Some progress \<and>
         find (\<lambda>p. id_path p = pathId) careerPaths = Some path \<and>
         milestones path = []"
    by blast
qed

text \<open>
  The theorem at a progress record without a catalog entry, and at a catalog entry without
  milestones.
\<close>

theorem getPathProgress_total_witness:
  "find (\<lambda>p. id_path p = 2) [path_of 1 4] = None \<and>
   find (\<lambda>p. career_path_id p = 2) [progress_of 2 3] = Some (progress_of 2 3) \<and>
   getPathProgress [path_of 1 4] [progress_of 2 3] 2 = Num 0 \<and>
   getPathProgress [path_of 1 0] [progress_of 1 3] 1 = PosInf \<and>
   (\<exists>progress path.
      find (\<lambda>p. career_path_id p = 1) [progress_of 1 3] = Some progress \<and>
      find (\<lambda>p. id_path p = 1) [path_of 1 0] = Some path \<and>
      milestones path = [])"
proof -
  have h: "find (\<lambda>p. id_path p = 2) [path_of 1 4] = None"
    by (simp add: path_of_def)
  have g: "find (\<lambda>p. career_path_id p = 2) [progress_of 2 3] = Some (progress_of 2 3)"
    by (simp add: progress_of_def)
  have i: "getPathProgress [path_of 1 0] [progress_of 1 3] 1 = PosInf"
    by (simp add: getPathProgress_def path_of_def progress_of_def js_length_def)
  from getPathProgress_total [of 2 "[path_of 1 4]" "[progress_of 2 3]"] h
  have z: "getPathProgress [path_of 1 4] [progress_of 2 3] 2 = Num 0" by blast
  from getPathProgress_total [of 1 "[path_of 1 0]" "[progress_of 1 3]"] i
  have "\<exists>progress path.
      find (\<lambda>p. career_path_id p = 1) [progress_of 1 3] = Some progress \<and>
      find (\<lambda>p. id_path p = 1) [path_of 1 0] = Some path \<and>
      milestones path = []"
    by blast
  with h g i z show ?thesis by blast
qed


section \<open>Dashboard and profile: completed paths\<close>

text \<open>
  The \<open>reduce\<close> of \<open>getCompletedCount\<close> counts the records that the \<open>filter\<close> of the
  profile page keeps.
\<close>

lemma foldl_count:
  "foldl (\<lambda>sum p. case f p of None \<Rightarrow> sum | Some y \<Rightarrow> if P p y then sum + 1 else sum) n xs
     = n + length (filter (\<lambda>p. case f p of None \<Rightarrow> False | Some y \<Rightarrow> P p y) xs)"
  for n :: nat
  by (induction xs arbitrary: n) (auto split: option.splits)

lemma getCompletedCount_filter:
  "getCompletedCount careerPaths userProgress =
     length
       (filter
          (\<lambda>p. case find (\<lambda>cp. id_path cp = career_path_id p) careerPaths of
                 None \<Rightarrow> False
               | Some path \<Rightarrow> length (completed_milestones p) = length (milestones path))
          userProgress)"
  unfolding getCompletedCount_def
  using foldl_count [where f = "\<lambda>p. find (\<lambda>cp. id_path cp = career_path_id p) careerPaths"
      and P = "\<lambda>p path. length (completed_milestones p) = length (milestones path)"
      and n = 0 and xs = userProgress]
  by simp

text \<open>
  C2 (as amended). The completed count never exceeds the number of progress records; where
  no two records are for the same path, that is the number of distinct paths in the
  progress list.
\<close>

theorem getCompletedCount_bound:
  "getCompletedCount careerPaths userProgress \<le> length userProgress \<and>
   (distinct (map career_path_id userProgress) \<longrightarrow>
      getCompletedCount careerPaths userProgress \<le> card (career_path_id ` set userProgress))"
proof -
  have le: "getCompletedCount careerPaths userProgress \<le> length userProgress"
    by (simp add: getCompletedCount_filter)
  have "card (career_path_id ` set userProgress) = length userProgress"
    if "distinct (map career_path_id userProgress)"
    using distinct_card [OF that] by simp
  with le show ?thesis by simp
qed

text \<open>
  The theorem at three records for three different paths.
\<close>

theorem getCompletedCount_bound_witness:
  "distinct (map career_path_id [progress_of 1 4, progress_of 2 2, progress_of 3 2]) \<and>
   getCompletedCount [path_of 1 4, path_of 2 5, path_of 3 2]
       [progress_of 1 4, progress_of 2 2, progress_of 3 2]
     \<le> card (career_path_id ` set [progress_of 1 4, progress_of 2 2, progress_of 3 2])"
proof -
  have d: "distinct (map career_path_id [progress_of 1 4, progress_of 2 2, progress_of 3 2])"
    by (simp add: progress_of_def)
  with getCompletedCount_bound [of "[path_of 1 4, path_of 2 5, path_of 3 2]"
      "[progress_of 1 4, progress_of 2 2, progress_of 3 2]"]
  show ?thesis by blast
qed

text \<open>
  C2 as stated fails: two completed records for the same path are both counted, and the
  progress list has one distinct path.
\<close>

theorem getCompletedCount_counterexample:
  "getCompletedCount [path_of 1 1] [progress_of 1 1, progress_of 1 1] = 2 \<and>
   card (career_path_id ` set [progress_of 1 1, progress_of 1 1]) = 1"
  by (simp add: getCompletedCount_def path_of_def progress_of_def)

text \<open>
  C8. After \<open>fetchStats\<close> the certificates count is the completed-paths count, which is the
  number of progress records whose path is in the catalog with as many milestones as the
  record has completed ones. When the reads fail, both stay at their initial 0.
\<close>

theorem fetchStats_certificates:
  "certificatesCount (stats (fetchStats (Some r) st))
     = completedPaths (stats (fetchStats (Some r) st)) \<and>
   completedPaths (stats (fetchStats (Some r) st))
     = card {i. i < length (progressRes r) \<and>
               (\<exists>path. find (\<lambda>cp. id_path cp = career_path_id (progressRes r ! i)) (pathsRes r)
                          = Some path \<and>
                       length (completed_milestones (progressRes r ! i))
                          = length (milestones path))} \<and>
   certificatesCount (stats (fetchStats None initial_profile))
     = completedPaths (stats (fetchStats None initial_profile))"
proof -
  have "{i. i < length (progressRes r) \<and>
               (\<exists>path. find (\<lambda>cp. id_path cp = career_path_id (progressRes r ! i)) (pathsRes r)
                          = Some path \<and>
                       length (completed_milestones (progressRes r ! i))
                          = length (milestones path))}
      = {i. i < length (progressRes r) \<and>
            (case find (\<lambda>cp. id_path cp = career_path_id (progressRes r ! i)) (pathsRes r) of
               None \<Rightarrow> False
             | Some path \<Rightarrow> length (completed_milestones (progressRes r ! i))
                          = length (milestones path))}"
    by (auto split: option.splits)
  then show ?thesis
    by (simp add: fetchStats_def Let_def initial_profile_def length_filter_conv_card)
qed

text \<open>
  The completed-paths count of the profile is the completed count of the dashboard.
\<close>

lemma fetchStats_completed_dashboard:
  "completedPaths (stats (fetchStats (Some r) st)) = getCompletedCount (pathsRes r) (progressRes r)"
  by (simp add: fetchStats_def Let_def getCompletedCount_filter)


section \<open>Quiz wizard: the navigation buttons\<close>

text \<open>
  Writing the answer of the question shown keeps the answers without gaps, as long as
  every earlier question has its answer.
\<close>

lemma js_index_Some: "js_index xs i = Some x \<Longrightarrow> i < length xs"
  by (simp add: js_index_def split: if_splits)

lemma length_js_assign:
  "i \<le> length xs \<Longrightarrow> length (js_assign xs i v) = (if i < length xs then length xs else i + 1)"
  by (simp add: js_assign_def)

lemma list_all_js_assign:
  assumes "i \<le> length xs" and "list_all (\<lambda>a. a \<noteq> None) xs"
  shows "list_all (\<lambda>a. a \<noteq> None) (js_assign xs i v)"
proof (cases "i < length xs")
  case True
  have "set (xs[i := Some v]) \<subseteq> insert (Some v) (set xs)" by (rule set_update_subset_insert)
  with assms True show ?thesis by (auto simp: js_assign_def list_all_iff)
next
  case False
  with assms show ?thesis by (simp add: js_assign_def)
qed

text \<open>
  Under the invariant, the empty slots are exactly those beyond the end of the array.
\<close>

lemma slot_filled: "quiz_inv s \<Longrightarrow> slot s i = None \<longleftrightarrow> length (answers s) \<le> i"
  by (auto simp: quiz_inv_def slot_def js_index_def list_all_length)

lemma quiz_inv_initial: "quiz_inv (initial_quiz qs)"
  by (simp add: quiz_inv_def initial_quiz_def)

text \<open>
  Every event keeps the invariant. \<open>Next\<close> is the step that needs its button: it can be
  clicked only once the question shown has its answer.
\<close>

lemma quiz_inv_fire:
  assumes inv: "quiz_inv s" and en: "enabled s e"
  shows "quiz_inv (fire e s)"
proof (cases e)
  case (ClickOption i)
  with en obtain q where q: "js_index (questions s) (currentQuestion s) = Some q"
    by (auto split: option.splits)
  then have lt: "currentQuestion s < length (questions s)" by (rule js_index_Some)
  from inv have le: "currentQuestion s \<le> length (answers s)"
    and len: "length (answers s) \<le> length (questions s)"
    and filled: "list_all (\<lambda>a. a \<noteq> None) (answers s)"
    by (simp_all add: quiz_inv_def)
  show ?thesis
    using ClickOption q lt le len list_all_js_assign [OF le filled]
    by (simp add: quiz_inv_def handleAnswer_def length_js_assign)
next
  case ClickNext
  with en have "slot s (currentQuestion s) \<noteq> None"
    by (auto simp: next_disabled_def split: option.splits)
  with inv have "currentQuestion s < length (answers s)"
    by (simp add: slot_filled)
  with inv ClickNext show ?thesis
    by (simp add: quiz_inv_def handleNext_def)
next
  case ClickPrevious
  with inv show ?thesis by (auto simp: quiz_inv_def handlePrevious_def)
next
  case ClickSubmit
  with inv show ?thesis by (simp add: quiz_inv_def handleSubmit_call_def)
next
  case (PostResolved payload)
  with inv show ?thesis by (simp add: quiz_inv_def handleSubmit_resolved_def)
next
  case PostRejected
  with inv show ?thesis by (simp add: quiz_inv_def handleSubmit_rejected_def)
qed

lemma quiz_inv_run: "quiz_inv s \<Longrightarrow> run s es = Some s' \<Longrightarrow> quiz_inv s'"
proof (induction es arbitrary: s)
  case Nil
  then show ?case by simp
next
  case (Cons e es)
  then show ?case by (auto split: if_splits dest: quiz_inv_fire)
qed

lemma quiz_inv_reached: "run (initial_quiz qs) es = Some s \<Longrightarrow> quiz_inv s"
  using quiz_inv_run [OF quiz_inv_initial] by blast

text \<open>
  C3. In every state \<open>s\<close> that the wizard reaches from its initial state by clicks on its
  options and buttons and by the settling of the submit request, \<open>Next\<close> is disabled
  exactly when the slot of the question shown is empty, and, while nothing is being
  submitted, \<open>Submit\<close> is disabled exactly when some slot of the question list is empty.
\<close>

theorem quiz_buttons:
  assumes "run (initial_quiz qs) es = Some s"
  shows "(next_disabled s \<longleftrightarrow> slot s (currentQuestion s) = None) \<and>
         (\<not> submitting s \<longrightarrow>
            (submit_disabled s \<longleftrightarrow> (\<exists>i < length (questions s). slot s i = None)))"
proof -
  have inv: "quiz_inv s" using assms by (rule quiz_inv_reached)
  have n: "next_disabled s \<longleftrightarrow> slot s (currentQuestion s) = None"
    by (simp add: next_disabled_def split: option.splits)
  have len: "length (answers s) \<le> length (questions s)" using inv by (simp add: quiz_inv_def)
  have "(\<exists>i < length (questions s). slot s i = None)
          \<longleftrightarrow> length (answers s) \<noteq> length (questions s)"
  proof
    assume "\<exists>i < length (questions s). slot s i = None"
    then obtain i where "i < length (questions s)" "length (answers s) \<le> i"
      using slot_filled [OF inv] by auto
    then show "length (answers s) \<noteq> length (questions s)" by simp
  next
    assume "length (answers s) \<noteq> length (questions s)"
    with len have "length (answers s) < length (questions s)" by simp
    moreover have "slot s (length (answers s)) = None" using slot_filled [OF inv] by simp
    ultimately show "\<exists>i < length (questions s). slot s i = None" by blast
  qed
  with n show ?thesis by (simp add: submit_disabled_def)
qed

text \<open>
  The theorem at the state reached in a quiz of two questions by answering the first and
  moving on: the second slot is empty, and both buttons are disabled.
\<close>

theorem quiz_buttons_witness:
  "run (initial_quiz two_questions) [ClickOption 1, ClickNext]
     = Some (handleNext (handleAnswer 1 (initial_quiz two_questions))) \<and>
   (next_disabled (handleNext (handleAnswer 1 (initial_quiz two_questions))) \<longleftrightarrow>
      slot (handleNext (handleAnswer 1 (initial_quiz two_questions)))
        (currentQuestion (handleNext (handleAnswer 1 (initial_quiz two_questions)))) = None) \<and>
   \<not> submitting (handleNext (handleAnswer 1 (initial_quiz two_questions))) \<and>
   (submit_disabled (handleNext (handleAnswer 1 (initial_quiz two_questions))) \<longleftrightarrow>
      (\<exists>i < length (questions (handleNext (handleAnswer 1 (initial_quiz two_questions)))).
         slot (handleNext (handleAnswer 1 (initial_quiz two_questions))) i = None))"
proof -
  have r: "run (initial_quiz two_questions) [ClickOption 1, ClickNext]
          = Some (handleNext (handleAnswer 1 (initial_quiz two_questions)))"
    by (simp add: initial_quiz_def two_questions_def render_def js_index_def handleAnswer_def
        js_assign_def next_rendered_def next_disabled_def slot_def handleNext_def)
  have s: "\<not> submitting (handleNext (handleAnswer 1 (initial_quiz two_questions)))"
    by (simp add: initial_quiz_def two_questions_def js_index_def handleAnswer_def handleNext_def)
  from quiz_buttons [OF r] r s show ?thesis by blast
qed

text \<open>
  The comparison of the lengths is enough only because \<open>Next\<close> is disabled on an empty
  slot: were \<open>handleNext\<close> run on the first question without an answer (the click that the
  button refuses), answering the second question would give an array of full length with
  an empty first slot.
\<close>

lemma skipping_questions:
  "submit_disabled (handleAnswer 0 (handleNext (initial_quiz two_questions))) = False \<and>
   slot (handleAnswer 0 (handleNext (initial_quiz two_questions))) 0 = None \<and>
   \<not> enabled (initial_quiz two_questions) ClickNext"
  by (simp add: initial_quiz_def two_questions_def js_index_def handleAnswer_def handleNext_def
      js_assign_def submit_disabled_def slot_def next_disabled_def)

section \<open>Quiz wizard: submission\<close>

text \<open>
  C6. \<open>handleSubmit\<close> on the question card with an answers array as long as the question
  list: when the request is rejected, the card is still shown, answers and question index
  are as before, \<open>results\<close> is still \<open>null\<close>, \<open>submitting\<close> is \<open>false\<close> again and a message
  has been shown; when it resolves, the payload is the \<open>results\<close> state and the results
  view is shown. The rejection handler changes neither answers, index nor results in
  whatever state \<open>t\<close> it runs.
\<close>

theorem handleSubmit_outcomes:
  assumes "render s = AnsweringView" and "length (answers s) = length (questions s)"
  shows "render (handleSubmit Rejected s) = AnsweringView \<and>
         answers (handleSubmit Rejected s) = answers s \<and>
         currentQuestion (handleSubmit Rejected s) = currentQuestion s \<and>
         results (handleSubmit Rejected s) = None \<and>
         \<not> submitting (handleSubmit Rejected s) \<and>
         alerts (handleSubmit Rejected s)
           = alerts s @ [''Failed to submit quiz. Please try again.''] \<and>
         results (handleSubmit (Resolved payload) s) = Some payload \<and>
         render (handleSubmit (Resolved payload) s) = ResultsView \<and>
         answers (handleSubmit_rejected t) = answers t \<and>
         currentQuestion (handleSubmit_rejected t) = currentQuestion t \<and>
         results (handleSubmit_rejected t) = results t \<and>
         \<not> submitting (handleSubmit_rejected t)"
proof -
  from assms(1) have l: "\<not> loading s" and r: "results s = None"
    and q: "js_index (questions s) (currentQuestion s) \<noteq> None"
    by (auto simp: render_def split: if_splits option.splits)
  show ?thesis
    using assms(2) l r q
    by (auto simp: handleSubmit_def handleSubmit_call_def handleSubmit_rejected_def
        handleSubmit_resolved_def render_def split: option.splits)
qed

text \<open>
  The theorem at the quiz of two questions with both answered.
\<close>

theorem handleSubmit_outcomes_witness:
  "render (handleAnswer 0 (handleNext (handleAnswer 1 (initial_quiz two_questions))))
     = AnsweringView \<and>
   length (answers (handleAnswer 0 (handleNext (handleAnswer 1 (initial_quiz two_questions)))))
     = length (questions (handleAnswer 0 (handleNext (handleAnswer 1 (initial_quiz two_questions))))) \<and>
   render (handleSubmit Rejected
       (handleAnswer 0 (handleNext (handleAnswer 1 (initial_quiz two_questions)))))
     = AnsweringView \<and>
   alerts (handleSubmit Rejected
       (handleAnswer 0 (handleNext (handleAnswer 1 (initial_quiz two_questions)))))
     = [''Failed to submit quiz. Please try again.''] \<and>
   render (handleSubmit (Resolved \<lparr>recommended_paths = [], learning_style = ''video''\<rparr>)
       (handleAnswer 0 (handleNext (handleAnswer 1 (initial_quiz two_questions)))))
     = ResultsView"
proof -
  define s where "s = handleAnswer 0 (handleNext (handleAnswer 1 (initial_quiz two_questions)))"
  have h1: "render s = AnsweringView"
    by (simp add: s_def initial_quiz_def two_questions_def render_def js_index_def
        handleAnswer_def js_assign_def handleNext_def)
  have h2: "length (answers s) = length (questions s)"
    by (simp add: s_def initial_quiz_def two_questions_def js_index_def
        handleAnswer_def js_assign_def handleNext_def)
  have a: "alerts s = []"
    by (simp add: s_def initial_quiz_def two_questions_def js_index_def
        handleAnswer_def js_assign_def handleNext_def)
  from handleSubmit_outcomes [OF h1 h2, of "\<lparr>recommended_paths = [], learning_style = ''video''\<rparr>" s]
    h1 h2 a
  show ?thesis unfolding s_def by simp
qed

section \<open>Achievement badges: the lookup\<close>

text \<open>
  The entry of \<open>path_master\<close>: the name "Path Master" and the crown, U+1F451.
\<close>

lemma lookup_path_master:
  "lookup_achievement ''path_master''
     = Some (Own \<lparr>name = ''Path Master'', description = ''Complete an entire career path'',
                  icon = [0x1F451], color = ''#F59E0B''\<rparr>)"
  by (simp add: lookup_achievement_def ACHIEVEMENT_DATA_def)

text \<open>
  An identifier that is neither one of the five keys nor a property name of
  \<open>Object.prototype\<close> renders nothing.
\<close>

lemma AchievementBadge_unknown:
  assumes "achievementId \<notin> set (map fst ACHIEVEMENT_DATA)"
    and "achievementId \<notin> set Object_prototype_keys"
  shows "AchievementBadge achievementId size_prop showTooltip = None"
proof -
  have "map_of ACHIEVEMENT_DATA achievementId = None"
    using assms(1) by (simp add: map_of_eq_None_iff)
  with assms(2) show ?thesis
    by (simp add: AchievementBadge_def lookup_achievement_def)
qed

text \<open>
  C7 fails at the identifier \<open>constructor\<close>: it is outside the five keys, the lookup finds
  the inherited \<open>Object.prototype.constructor\<close>, which is truthy, and the component
  returns a badge element where the claim has \<open>null\<close>.
\<close>

theorem AchievementBadge_constructor:
  "''constructor'' \<notin> set (map fst ACHIEVEMENT_DATA) \<and>
   AchievementBadge ''constructor'' ''medium'' True
     = Some (Badge (Inherited ''constructor'') ''medium'' True)"
  by (simp add: AchievementBadge_def lookup_achievement_def ACHIEVEMENT_DATA_def
      Object_prototype_keys_def)

section \<open>Signup form: validation\<close>

text \<open>
  C9. Where the password differs from its confirmation or has fewer than 6 code units,
  \<open>handleSubmit\<close> of the signup form sets the message of the first check that fails, calls
  neither \<open>signup\<close> nor \<open>navigate\<close>, and leaves the loading flag as it was (\<open>false\<close> when
  the form can be submitted).
\<close>

theorem handleSubmit_signup_validation:
  assumes "password s \<noteq> confirmPassword s \<or> length (password s) < 6"
  shows "error (handleSubmit_signup outcome s)
           = (if password s \<noteq> confirmPassword s then ''Passwords do not match''
              else ''Password must be at least 6 characters'') \<and>
         signup_calls (handleSubmit_signup outcome s) = signup_calls s \<and>
         navigations (handleSubmit_signup outcome s) = navigations s \<and>
         loading_signup (handleSubmit_signup outcome s) = loading_signup s"
  using assms by (auto simp: handleSubmit_signup_def Let_def)

text \<open>
  The theorem at the password "123", equal to its confirmation and too short.
\<close>

theorem handleSubmit_signup_validation_witness:
  "length (password \<lparr>name_field = [0x41], email = [0x61, 0x40, 0x62],
        password = [0x31, 0x32, 0x33], confirmPassword = [0x31, 0x32, 0x33], error = [],
        loading_signup = False, signup_calls = [], navigations = []\<rparr>) < 6 \<and>
   error (handleSubmit_signup SignupResolved
      \<lparr>name_field = [0x41], email = [0x61, 0x40, 0x62], password = [0x31, 0x32, 0x33],
        confirmPassword = [0x31, 0x32, 0x33], error = [], loading_signup = False,
        signup_calls = [], navigations = []\<rparr>)
     = ''Password must be at least 6 characters'' \<and>
   signup_calls (handleSubmit_signup SignupResolved
      \<lparr>name_field = [0x41], email = [0x61, 0x40, 0x62], password = [0x31, 0x32, 0x33],
        confirmPassword = [0x31, 0x32, 0x33], error = [], loading_signup = False,
        signup_calls = [], navigations = []\<rparr>) = [] \<and>
   \<not> loading_signup (handleSubmit_signup SignupResolved
      \<lparr>name_field = [0x41], email = [0x61, 0x40, 0x62], password = [0x31, 0x32, 0x33],
        confirmPassword = [0x31, 0x32, 0x33], error = [], loading_signup = False,
        signup_calls = [], navigations = []\<rparr>)"
proof -
  define s :: signup_state where "s = \<lparr>name_field = [0x41], email = [0x61, 0x40, 0x62],
        password = [0x31, 0x32, 0x33], confirmPassword = [0x31, 0x32, 0x33], error = [],
        loading_signup = False, signup_calls = [], navigations = []\<rparr>"
  have short: "length (password s) < 6"
    by (simp add: s_def)
  then have h: "password s \<noteq> confirmPassword s \<or> length (password s) < 6" ..
  from handleSubmit_signup_validation [OF h, of SignupResolved] short
  show ?thesis unfolding s_def by simp
qed

end
